theory Spec2Isabelle
  imports Main "HOL-Library.Sublist"
begin

section \<open>Values, messages and the HTTP layer\<close>

text \<open>
  The program is one Streamlit script, \<^verbatim>\<open>main.py\<close>. Python strings are modelled as
  \<^typ>\<open>string\<close>; the one non-ASCII character of the code modelled here, the cross mark
  U+274C that opens both error messages, is written in its UTF-8 encoding. The sidebar,
  the theme and the calls that draw on the page are presentation and are left out.

  A decoded JSON document, which is also the shape of every Python value the script
  handles: \<^verbatim>\<open>None\<close>, \<^verbatim>\<open>bool\<close>, \<^verbatim>\<open>int\<close>, \<^verbatim>\<open>float\<close> (carried as the decimal
  \<open>m * 10 ^ e\<close> of its literal), \<^verbatim>\<open>str\<close>, \<^verbatim>\<open>list\<close> and \<^verbatim>\<open>dict\<close> (its items in
  insertion order; keys are strings and distinct).
\<close>

datatype json =
    JNull
  | JBool bool
  | JInt int
  | JFloat int int
  | JStr string
  | JArr "json list"
  | JObj "(string \<times> json) list"

text \<open>
  The exceptions that can occur in \<^verbatim>\<open>query_openrouter\<close>. The first four are subclasses of
  \<^verbatim>\<open>requests.exceptions.RequestException\<close>; \<open>RequestsJSONDecodeError\<close> is what
  \<^verbatim>\<open>response.json()\<close> raises in requests 2.27 and later, \<open>ValueError\<close> what it raises
  in earlier versions.
\<close>

datatype exn =
    ConnectionError
  | Timeout
  | HTTPError
  | RequestsJSONDecodeError
  | ValueError
  | KeyError
  | IndexError
  | TypeError
  | UnboundLocalError

fun is_RequestException :: "exn \<Rightarrow> bool" where
  "is_RequestException ConnectionError = True"
| "is_RequestException Timeout = True"
| "is_RequestException HTTPError = True"
| "is_RequestException RequestsJSONDecodeError = True"
| "is_RequestException _ = False"

text \<open>
  An entry of the chat history, \<^verbatim>\<open>{"role": ..., "content": ...}\<close>. The content of an
  assistant entry is whatever \<^verbatim>\<open>query_openrouter\<close> returned, so it is a value, not
  necessarily a string.
\<close>

record message =
  role :: string
  content :: json

text \<open>The arguments of \<^verbatim>\<open>requests.post(url, headers=headers, json=data)\<close>.\<close>

record request =
  req_method :: string
  req_url :: string
  req_headers :: "(string \<times> string) list"
  req_json :: json

text \<open>
  What the script reads of a \<^verbatim>\<open>requests.Response\<close>: \<^verbatim>\<open>status_code\<close>, \<^verbatim>\<open>reason\<close>,
  \<^verbatim>\<open>text\<close> (here \<open>text_of\<close>), and the outcome of \<^verbatim>\<open>json()\<close>, which either raises or
  returns the decoded body.
\<close>

record response =
  status_code :: nat
  reason :: string
  text_of :: string
  body_json :: "exn + json"

text \<open>
  \<^verbatim>\<open>requests.post\<close> either raises before any response object exists (a connection
  failure, a timeout) or returns a response.
\<close>

datatype http_outcome =
    PostRaised exn
  | Returned response

section \<open>The Completion Client: \<^verbatim>\<open>query_openrouter\<close>\<close>

definition cross_mark :: string where
  "cross_mark = [CHR 0xE2, CHR 0x9D, CHR 0x8C]"

definition digit_char :: "nat \<Rightarrow> char" where
  "digit_char d = ''0123456789'' ! d"

text \<open>Python's \<^verbatim>\<open>str\<close> of a non-negative \<^verbatim>\<open>int\<close>: its decimal digits.\<close>

fun str_nat :: "nat \<Rightarrow> string" where
  "str_nat n = (if n < 10 then [digit_char n] else str_nat (n div 10) @ [digit_char (n mod 10)])"

declare str_nat.simps [simp del]

definition bind_exn :: "exn + 'a \<Rightarrow> ('a \<Rightarrow> exn + 'b) \<Rightarrow> exn + 'b" where
  "bind_exn m f = (case m of Inl e \<Rightarrow> Inl e | Inr v \<Rightarrow> f v)"

text \<open>
  \<^verbatim>\<open>x[key]\<close> for a string key: a dict is looked up and raises \<^verbatim>\<open>KeyError\<close> when the key
  is absent; a list or a string raises \<^verbatim>\<open>TypeError\<close> (their indices must be integers),
  and so does every value that is not subscriptable.
\<close>

fun getitem_key :: "json \<Rightarrow> string \<Rightarrow> exn + json" where
  "getitem_key (JObj kvs) k = (case map_of kvs k of None \<Rightarrow> Inl KeyError | Some v \<Rightarrow> Inr v)"
| "getitem_key _ k = Inl TypeError"

text \<open>
  \<^verbatim>\<open>x[0]\<close>: the first element of a list or the first character of a string,
  \<^verbatim>\<open>IndexError\<close> when it is empty; a dict decoded from JSON has string keys only, so
  looking up \<^verbatim>\<open>0\<close> raises \<^verbatim>\<open>KeyError\<close>; anything else is not subscriptable.
\<close>

fun getitem_0 :: "json \<Rightarrow> exn + json" where
  "getitem_0 (JArr []) = Inl IndexError"
| "getitem_0 (JArr (v # vs)) = Inr v"
| "getitem_0 (JStr []) = Inl IndexError"
| "getitem_0 (JStr (c # cs)) = Inr (JStr [c])"
| "getitem_0 (JObj kvs) = Inl KeyError"
| "getitem_0 _ = Inl TypeError"

text \<open>\<^verbatim>\<open>response.raise_for_status()\<close> raises \<^verbatim>\<open>HTTPError\<close> for a 4xx or 5xx status.\<close>

definition raise_for_status :: "response \<Rightarrow> exn + unit" where
  "raise_for_status r =
     (if 400 \<le> status_code r \<and> status_code r < 600 then Inl HTTPError else Inr ())"

definition url :: string where
  "url = ''https://openrouter.ai/api/v1/chat/completions''"

definition headers :: "string \<Rightarrow> (string \<times> string) list" where
  "headers API_KEY =
     [(''Authorization'', ''Bearer '' @ API_KEY),
      (''Content-Type'', ''application/json''),
      (''X-Title'', ''Multi-Model Chatbot'')]"

definition message_json :: "message \<Rightarrow> json" where
  "message_json m = JObj [(''role'', JStr (role m)), (''content'', content m)]"

definition data :: "string \<Rightarrow> message list \<Rightarrow> json" where
  "data model_id messages =
     JObj [(''model'', JStr model_id),
           (''messages'', JArr (map message_json messages)),
           (''temperature'', JFloat 7 (- 1))]"

text \<open>The two error strings of lines 65 and 67.\<close>

definition api_error_message :: "response \<Rightarrow> string" where
  "api_error_message r =
     cross_mark @ '' API Error: '' @ str_nat (status_code r) @ '' '' @ reason r
       @ '' for url: '' @ url @ [CHR 0x0A] @ ''Details: '' @ text_of r"

definition parse_error_message :: string where
  "parse_error_message =
     cross_mark @ '' Error: Could not parse API response or unexpected format.''"

text \<open>
  The body of the \<^verbatim>\<open>try\<close> (lines 61 to 63), given what \<^verbatim>\<open>requests.post\<close> did: the
  first exception raised ends it.
\<close>

definition try_body :: "http_outcome \<Rightarrow> exn + json" where
  "try_body outcome =
     (case outcome of
        PostRaised e \<Rightarrow> Inl e
      | Returned r \<Rightarrow>
          bind_exn (raise_for_status r) (\<lambda>_.
          bind_exn (body_json r) (\<lambda>j.
          bind_exn (getitem_key j ''choices'') (\<lambda>choices.
          bind_exn (getitem_0 choices) (\<lambda>choice.
          bind_exn (getitem_key choice ''message'') (\<lambda>msg.
          getitem_key msg ''content''))))))"

text \<open>
  The local variable \<^verbatim>\<open>response\<close> is bound only when \<^verbatim>\<open>requests.post\<close> returned.
\<close>

fun response_var :: "http_outcome \<Rightarrow> response option" where
  "response_var (PostRaised e) = None"
| "response_var (Returned r) = Some r"

text \<open>
  The two \<^verbatim>\<open>except\<close> clauses (lines 64 to 67), tried in order. The first one formats
  \<^verbatim>\<open>response.status_code\<close>, \<^verbatim>\<open>response.reason\<close> and \<^verbatim>\<open>response.text\<close>: when
  \<^verbatim>\<open>response\<close> is unbound, evaluating the f-string raises \<^verbatim>\<open>UnboundLocalError\<close>
  inside the handler, and that exception leaves the function. An exception that matches
  neither clause leaves the function as it is.
\<close>

definition except_clauses :: "response option \<Rightarrow> exn \<Rightarrow> exn + json" where
  "except_clauses resp e =
     (if is_RequestException e then
        (case resp of
           None \<Rightarrow> Inl UnboundLocalError
         | Some r \<Rightarrow> Inr (JStr (api_error_message r)))
      else if e = KeyError then Inr (JStr parse_error_message)
      else Inl e)"

definition try_except :: "http_outcome \<Rightarrow> exn + json" where
  "try_except outcome =
     (case try_body outcome of
        Inr v \<Rightarrow> Inr v
      | Inl e \<Rightarrow> except_clauses (response_var outcome) e)"

section \<open>Session state, the memoizing decorator and the network\<close>

text \<open>
  The network is outside the program: \<open>net n rq\<close> is what \<^verbatim>\<open>requests.post\<close> does with
  the request \<open>rq\<close> when \<open>n\<close> requests have been issued before it. Every theorem below
  holds for every such function.
\<close>

type_synonym network = "nat \<Rightarrow> request \<Rightarrow> http_outcome"

text \<open>
  The state a script run reads and writes: \<^verbatim>\<open>st.session_state.chat_history\<close> (\<open>None\<close>
  while the key is absent), the store of \<^verbatim>\<open>st.cache_data\<close> for
  \<^verbatim>\<open>query_openrouter\<close>, keyed by the argument pair, and two logs that no definition
  reads: the requests handed to \<^verbatim>\<open>requests.post\<close> and the argument pairs
  \<^verbatim>\<open>query_openrouter\<close> was called with, oldest first.
\<close>

record state =
  chat_history :: "message list option"
  cache :: "string \<times> message list \<Rightarrow> json option"
  sent :: "request list"
  calls :: "(string \<times> message list) list"

text \<open>Lines 49 to 59 and the call of line 61: what is handed to \<^verbatim>\<open>requests.post\<close>.\<close>

definition post_request :: "string \<Rightarrow> string \<Rightarrow> message list \<Rightarrow> request" where
  "post_request API_KEY model_id messages =
     \<lparr>req_method = ''POST'', req_url = url, req_headers = headers API_KEY,
      req_json = data model_id messages\<rparr>"

text \<open>Lines 49 to 67: the function under the decorator. It posts once.\<close>

definition query_openrouter_body ::
  "string \<Rightarrow> network \<Rightarrow> string \<Rightarrow> message list \<Rightarrow> state \<Rightarrow> (exn + json) \<times> state" where
  "query_openrouter_body API_KEY net model_id messages s =
     (let rq = post_request API_KEY model_id messages;
          outcome = net (length (sent s)) rq
      in (try_except outcome, s\<lparr>sent := sent s @ [rq]\<rparr>))"

text \<open>
  Line 36: \<^verbatim>\<open>@st.cache_data\<close>. A call whose argument pair has a stored value returns
  that value and does not run the function; otherwise the function runs, and its value
  is stored when it returns. Nothing is stored when it raises.
\<close>

definition query_openrouter ::
  "string \<Rightarrow> network \<Rightarrow> string \<Rightarrow> message list \<Rightarrow> state \<Rightarrow> (exn + json) \<times> state" where
  "query_openrouter API_KEY net model_id messages s =
     (let s0 = s\<lparr>calls := calls s @ [(model_id, messages)]\<rparr> in
      case cache s0 (model_id, messages) of
        Some v \<Rightarrow> (Inr v, s0)
      | None \<Rightarrow>
          (case query_openrouter_body API_KEY net model_id messages s0 of
             (Inl e, s1) \<Rightarrow> (Inl e, s1)
           | (Inr v, s1) \<Rightarrow> (Inr v, s1\<lparr>cache := (cache s1)((model_id, messages) \<mapsto> v)\<rparr>)))"

section \<open>The chat handler\<close>

definition history :: "state \<Rightarrow> message list" where
  "history s = (case chat_history s of None \<Rightarrow> [] | Some h \<Rightarrow> h)"

text \<open>Lines 105 and 106.\<close>

definition init_chat_history :: "state \<Rightarrow> state" where
  "init_chat_history s =
     (case chat_history s of None \<Rightarrow> s\<lparr>chat_history := Some []\<rparr> | Some h \<Rightarrow> s)"

text \<open>\<^verbatim>\<open>st.session_state.chat_history.append(m)\<close>, used once the key exists.\<close>

definition append_turn :: "message \<Rightarrow> state \<Rightarrow> state" where
  "append_turn m s = s\<lparr>chat_history := Some (history s @ [m])\<rparr>"

text \<open>
  Lines 104 to 136, one run of the script from the initialisation of the history on.
  \<open>user_prompt\<close> is what \<^verbatim>\<open>st.chat_input\<close> returned: \<open>None\<close> or the submitted string;
  \<^verbatim>\<open>if user_prompt:\<close> is false for \<open>None\<close> and for the empty string.
  \<open>selected_model_id\<close> is the catalogue value of the label chosen in the sidebar.
  The result is the exception that ended the run, if one did, and the state the run
  leaves; the calls that only draw on the page are not modelled. An exception raised by
  \<^verbatim>\<open>query_openrouter\<close> at line 129 is not caught by the script, so it ends the run
  before line 132.
\<close>

definition chat ::
  "string \<Rightarrow> network \<Rightarrow> string \<Rightarrow> string option \<Rightarrow> state \<Rightarrow> exn option \<times> state" where
  "chat API_KEY net selected_model_id user_prompt s =
     (let s1 = init_chat_history s in
      case user_prompt of
        None \<Rightarrow> (None, s1)
      | Some p \<Rightarrow>
          if p = [] then (None, s1)
          else
            (let s2 = append_turn \<lparr>role = ''user'', content = JStr p\<rparr> s1 in
             case query_openrouter API_KEY net selected_model_id (history s2) s2 of
               (Inl e, s3) \<Rightarrow> (Some e, s3)
             | (Inr reply, s3) \<Rightarrow>
                 (None, append_turn \<lparr>role = ''assistant'', content = reply\<rparr> s3)))"

text \<open>
  A session: one run per element of the list, each starting in the state the previous
  one left (an uncaught exception ends a run, not the session). An element is the model
  selected and what the input control yielded in that run. The result lists the
  exceptions of the runs, oldest first.
\<close>

fun chats ::
  "string \<Rightarrow> network \<Rightarrow> (string \<times> string option) list \<Rightarrow> state \<Rightarrow> exn option list \<times> state" where
  "chats API_KEY net [] s = ([], s)"
| "chats API_KEY net ((selected_model_id, user_prompt) # rest) s =
     (case chat API_KEY net selected_model_id user_prompt s of
        (e, s') \<Rightarrow>
          (case chats API_KEY net rest s' of
             (es, s'') \<Rightarrow> (e # es, s'')))"

text \<open>The state of a fresh server process and a fresh session.\<close>

definition fresh :: state where
  "fresh = \<lparr>chat_history = None, cache = (\<lambda>k. None), sent = [], calls = []\<rparr>"

section \<open>Loading the credential\<close>

text \<open>
  What lines 11 to 17 read: the outcome of \<^verbatim>\<open>st.secrets["OPENROUTER_API_KEY"]\<close>
  (an exception or the value), the process environment, and the entries of the
  \<^verbatim>\<open>.env\<close> file.
\<close>

record config =
  secrets_lookup :: "exn + string"
  os_environ :: "string \<Rightarrow> string option"
  dotenv_file :: "string \<Rightarrow> string option"

text \<open>
  \<^verbatim>\<open>load_dotenv()\<close> adds the entries of the file to the environment and leaves the
  variables that are already set as they are.
\<close>

definition load_dotenv :: "config \<Rightarrow> config" where
  "load_dotenv c = c\<lparr>os_environ := dotenv_file c ++ os_environ c\<rparr>"

definition load_API_KEY :: "config \<Rightarrow> string option" where
  "load_API_KEY c =
     (case secrets_lookup c of
        Inr v \<Rightarrow> Some v
      | Inl e \<Rightarrow> os_environ (load_dotenv c) ''OPENROUTER_API_KEY'')"

text \<open>
  The whole script: it stops at line 22 when the key is \<open>None\<close> or empty, before the
  chat handler is reached.
\<close>

definition main ::
  "config \<Rightarrow> network \<Rightarrow> string \<Rightarrow> string option \<Rightarrow> state \<Rightarrow> exn option \<times> state" where
  "main c net selected_model_id user_prompt s =
     (case load_API_KEY c of
        None \<Rightarrow> (None, s)
      | Some API_KEY \<Rightarrow>
          if API_KEY = [] then (None, s)
          else chat API_KEY net selected_model_id user_prompt s)"

text \<open>A network that treats every request the same way.\<close>

definition always :: "http_outcome \<Rightarrow> network" where
  "always outcome n rq = outcome"

section \<open>Basic facts\<close>

lemma try_except_good:
  assumes "\<not> (400 \<le> status_code r \<and> status_code r < 600)"
    and "body_json r = Inr (JObj kvs)"
    and "map_of kvs ''choices'' = Some (JArr (JObj c # others))"
    and "map_of c ''message'' = Some (JObj m)"
    and "map_of m ''content'' = Some v"
  shows "try_except (Returned r) = Inr v"
  using assms by (auto simp: try_except_def try_body_def bind_exn_def raise_for_status_def)

lemma try_except_http_error:
  assumes "400 \<le> status_code r" and "status_code r < 600"
  shows "try_except (Returned r) = Inr (JStr (api_error_message r))"
  using assms
  by (simp add: try_except_def try_body_def bind_exn_def raise_for_status_def except_clauses_def)

lemma query_openrouter_body_eq:
  "query_openrouter_body API_KEY net model_id messages s =
     (try_except (net (length (sent s)) (post_request API_KEY model_id messages)),
      s\<lparr>sent := sent s @ [post_request API_KEY model_id messages]\<rparr>)"
  by (simp add: query_openrouter_body_def Let_def)

lemma query_openrouter_hit:
  "cache s (model_id, messages) = Some v \<Longrightarrow>
   query_openrouter API_KEY net model_id messages s =
     (Inr v, s\<lparr>calls := calls s @ [(model_id, messages)]\<rparr>)"
  by (simp add: query_openrouter_def Let_def)

lemma query_openrouter_miss:
  "cache s (model_id, messages) = None \<Longrightarrow>
   query_openrouter API_KEY net model_id messages s =
     (case try_except (net (length (sent s)) (post_request API_KEY model_id messages)) of
        Inl e \<Rightarrow> (Inl e, s\<lparr>calls := calls s @ [(model_id, messages)],
                         sent := sent s @ [post_request API_KEY model_id messages]\<rparr>)
      | Inr v \<Rightarrow> (Inr v, s\<lparr>calls := calls s @ [(model_id, messages)],
                         sent := sent s @ [post_request API_KEY model_id messages],
                         cache := (cache s)((model_id, messages) \<mapsto> v)\<rparr>))"
  by (simp add: query_openrouter_def query_openrouter_body_eq Let_def split: sum.splits)

lemma query_openrouter_chat_history [simp]:
  "chat_history (snd (query_openrouter API_KEY net model_id messages s)) = chat_history s"
  by (cases "cache s (model_id, messages)")
     (simp_all add: query_openrouter_hit query_openrouter_miss split: sum.splits)

lemma query_openrouter_calls:
  "calls (snd (query_openrouter API_KEY net model_id messages s)) =
     calls s @ [(model_id, messages)]"
  by (cases "cache s (model_id, messages)")
     (simp_all add: query_openrouter_hit query_openrouter_miss split: sum.splits)

lemma query_openrouter_sent:
  "sent (snd (query_openrouter API_KEY net model_id messages s)) =
     (if cache s (model_id, messages) = None
      then sent s @ [post_request API_KEY model_id messages] else sent s)"
  by (cases "cache s (model_id, messages)")
     (simp_all add: query_openrouter_hit query_openrouter_miss split: sum.splits)

lemma query_openrouter_returns_memoized:
  "fst (query_openrouter API_KEY net model_id messages s) = Inr v \<Longrightarrow>
   cache (snd (query_openrouter API_KEY net model_id messages s)) (model_id, messages) = Some v"
  by (cases "cache s (model_id, messages)")
     (auto simp: query_openrouter_hit query_openrouter_miss split: sum.splits)

lemma query_openrouter_cache_other:
  "k \<noteq> (model_id, messages) \<Longrightarrow>
   cache (snd (query_openrouter API_KEY net model_id messages s)) k = cache s k"
  by (cases "cache s (model_id, messages)")
     (auto simp: query_openrouter_hit query_openrouter_miss split: sum.splits)

lemma history_simps [simp]:
  "history (init_chat_history s) = history s"
  "history (append_turn m s) = history s @ [m]"
  "history (s\<lparr>chat_history := Some h\<rparr>) = h"
  by (simp_all add: history_def init_chat_history_def append_turn_def split: option.splits)

lemma history_query_openrouter [simp]:
  "history (snd (query_openrouter API_KEY net model_id messages s)) = history s"
  by (simp add: history_def)

lemma chat_submit:
  assumes "p \<noteq> []"
  shows "chat API_KEY net selected_model_id (Some p) s =
     (case query_openrouter API_KEY net selected_model_id
             (history s @ [\<lparr>role = ''user'', content = JStr p\<rparr>])
             (append_turn \<lparr>role = ''user'', content = JStr p\<rparr> (init_chat_history s)) of
        (Inl e, s3) \<Rightarrow> (Some e, s3)
      | (Inr reply, s3) \<Rightarrow> (None, append_turn \<lparr>role = ''assistant'', content = reply\<rparr> s3))"
  using assms by (simp add: chat_def Let_def)

lemma chat_submit_history:
  assumes "p \<noteq> []"
  shows "history (snd (chat API_KEY net selected_model_id (Some p) s)) =
     (case fst (query_openrouter API_KEY net selected_model_id
             (history s @ [\<lparr>role = ''user'', content = JStr p\<rparr>])
             (append_turn \<lparr>role = ''user'', content = JStr p\<rparr> (init_chat_history s))) of
        Inl e \<Rightarrow> history s @ [\<lparr>role = ''user'', content = JStr p\<rparr>]
      | Inr reply \<Rightarrow> history s @ [\<lparr>role = ''user'', content = JStr p\<rparr>,
                                   \<lparr>role = ''assistant'', content = reply\<rparr>])"
    and "fst (chat API_KEY net selected_model_id (Some p) s) =
     (case fst (query_openrouter API_KEY net selected_model_id
             (history s @ [\<lparr>role = ''user'', content = JStr p\<rparr>])
             (append_turn \<lparr>role = ''user'', content = JStr p\<rparr> (init_chat_history s))) of
        Inl e \<Rightarrow> Some e | Inr reply \<Rightarrow> None)"
proof -
  let ?u = "\<lparr>role = ''user'', content = JStr p\<rparr>"
  let ?q = "query_openrouter API_KEY net selected_model_id (history s @ [?u])
              (append_turn ?u (init_chat_history s))"
  have h: "history (snd ?q) = history s @ [?u]" by simp
  obtain res s3 where q: "?q = (res, s3)" by (cases ?q)
  with h have h3: "history s3 = history s @ [?u]" by simp
  show "history (snd (chat API_KEY net selected_model_id (Some p) s)) =
     (case fst ?q of Inl e \<Rightarrow> history s @ [?u]
      | Inr reply \<Rightarrow> history s @ [?u, \<lparr>role = ''assistant'', content = reply\<rparr>])"
    using assms q h3 by (cases res) (simp_all add: chat_submit)
  show "fst (chat API_KEY net selected_model_id (Some p) s) =
     (case fst ?q of Inl e \<Rightarrow> Some e | Inr reply \<Rightarrow> None)"
    using assms q by (cases res) (simp_all add: chat_submit)
qed

text \<open>
  The design of the handler: in a session where every run has a prompt and none raises,
  the roles added to the history alternate, two per run.
\<close>

lemma chats_alternate:
  assumes "chats API_KEY net subs s = (es, s')"
    and "list_all (\<lambda>(m, up). up \<noteq> None \<and> up \<noteq> Some []) subs"
    and "list_all (\<lambda>e. e = None) es"
  shows "map role (history s') =
           map role (history s) @ concat (replicate (length subs) [''user'', ''assistant''])"
  using assms
proof (induction subs arbitrary: s es)
  case Nil
  then show ?case by simp
next
  case (Cons x subs)
  obtain m up where x: "x = (m, up)" by (cases x)
  from Cons.prems(2) x obtain p where up: "up = Some p" and p: "p \<noteq> []" by auto
  obtain e s1 where c: "chat API_KEY net m (Some p) s = (e, s1)"
    by (cases "chat API_KEY net m (Some p) s")
  obtain es1 where r: "chats API_KEY net subs s1 = (es1, s')" and es: "es = e # es1"
    using Cons.prems(1) x up c by (auto split: prod.splits)
  from Cons.prems(3) es have e: "e = None" and es1: "list_all (\<lambda>e. e = None) es1" by auto
  have "fst (chat API_KEY net m (Some p) s) = None" using c e by simp
  then obtain reply where
    "fst (query_openrouter API_KEY net m (history s @ [\<lparr>role = ''user'', content = JStr p\<rparr>])
       (append_turn \<lparr>role = ''user'', content = JStr p\<rparr> (init_chat_history s))) = Inr reply"
    using chat_submit_history(2)[OF p, of API_KEY net m s] by (auto split: sum.splits)
  then have "history s1 = history s @ [\<lparr>role = ''user'', content = JStr p\<rparr>,
                                        \<lparr>role = ''assistant'', content = reply\<rparr>]"
    using chat_submit_history(1)[OF p, of API_KEY net m s] c by simp
  moreover have "map role (history s') =
      map role (history s1) @ concat (replicate (length subs) [''user'', ''assistant''])"
    using Cons.IH[OF r _ es1] Cons.prems(2) by simp
  ultimately show ?case by simp
qed

lemma api_error_message_embeds:
  "sublist (str_nat (status_code r)) (api_error_message r)"
  "sublist (reason r) (api_error_message r)"
  "sublist ''https://openrouter.ai/api/v1/chat/completions'' (api_error_message r)"
  "sublist (text_of r) (api_error_message r)"
proof -
  show "sublist (str_nat (status_code r)) (api_error_message r)"
    unfolding api_error_message_def sublist_def
    by (rule exI[of _ "cross_mark @ '' API Error: ''"], rule exI) simp
  show "sublist (reason r) (api_error_message r)"
    unfolding api_error_message_def sublist_def
    by (rule exI[of _ "cross_mark @ '' API Error: '' @ str_nat (status_code r) @ '' ''"],
        rule exI) simp
  show "sublist ''https://openrouter.ai/api/v1/chat/completions'' (api_error_message r)"
    unfolding api_error_message_def sublist_def
    by (rule exI[of _ "cross_mark @ '' API Error: '' @ str_nat (status_code r) @ '' ''
           @ reason r @ '' for url: ''"], rule exI[of _ "[CHR 0x0A] @ ''Details: '' @ text_of r"])
       (simp add: url_def)
  show "sublist (text_of r) (api_error_message r)"
    unfolding api_error_message_def sublist_def
    by (rule exI[of _ "cross_mark @ '' API Error: '' @ str_nat (status_code r) @ '' ''
           @ reason r @ '' for url: '' @ url @ [CHR 0x0A] @ ''Details: ''"],
        rule exI[of _ "[]"]) simp
qed

section \<open>The claims\<close>

text \<open>
  C1, at an input where it fails. The claim: after N user submissions the history holds
  exactly 2N turns, alternating user, assistant. When the request of a submission fails
  in transport, \<^verbatim>\<open>query_openrouter\<close> raises at line 129 (see C2), the run ends before
  line 132, and the user turn appended at line 120 stays without a reply: one turn after
  one submission, two user turns in a row after two.
\<close>

theorem chats_transport_failure_leaves_user_turn:
  "fst (chats ''sk-1'' (always (PostRaised ConnectionError))
      [(''meta-llama/llama-3-8b-instruct'', Some ''Hello'')] fresh) = [Some UnboundLocalError]
   \<and> map role (history (snd (chats ''sk-1'' (always (PostRaised ConnectionError))
      [(''meta-llama/llama-3-8b-instruct'', Some ''Hello'')] fresh))) = [''user'']
   \<and> map role (history (snd (chats ''sk-1'' (always (PostRaised ConnectionError))
      [(''meta-llama/llama-3-8b-instruct'', Some ''Hello''),
       (''meta-llama/llama-3-8b-instruct'', Some ''Are you there?'')] fresh)))
      = [''user'', ''user'']"
  by (simp add: chat_submit query_openrouter_miss fresh_def always_def try_except_def
      try_body_def except_clauses_def append_turn_def init_chat_history_def history_def)

text \<open>
  C2, at an input where it fails. The claim: whatever the HTTP layer does, also a
  transport failure with no response object, \<^verbatim>\<open>query_openrouter\<close> returns a string and
  propagates no exception. When \<^verbatim>\<open>requests.post\<close> raises \<^verbatim>\<open>ConnectionError\<close>, the
  handler of line 65 reads the unbound \<^verbatim>\<open>response\<close>, and the call ends with
  \<^verbatim>\<open>UnboundLocalError\<close>.
\<close>

theorem query_openrouter_transport_failure_raises:
  "fst (query_openrouter API_KEY (always (PostRaised ConnectionError)) model_id messages fresh)
     = Inl UnboundLocalError"
  by (simp add: query_openrouter_miss fresh_def always_def try_except_def try_body_def
      except_clauses_def)

text \<open>
  C3, at an input where it fails. The claim: a response whose body lacks the expected
  fields yields the fixed parse-error string, not a crash. For a 200 response with the
  body \<^verbatim>\<open>{"choices": []}\<close> the subscript \<^verbatim>\<open>[0]\<close> raises \<^verbatim>\<open>IndexError\<close>, which no
  clause catches; for the body \<^verbatim>\<open>[]\<close> the subscript \<^verbatim>\<open>["choices"]\<close> raises
  \<^verbatim>\<open>TypeError\<close>.
\<close>

theorem query_openrouter_empty_choices_raises:
  "fst (query_openrouter API_KEY
          (always (Returned \<lparr>status_code = 200, reason = ''OK'', text_of = raw,
                              body_json = Inr (JObj [(''choices'', JArr [])])\<rparr>))
          model_id messages fresh) = Inl IndexError
   \<and> fst (query_openrouter API_KEY
          (always (Returned \<lparr>status_code = 200, reason = ''OK'', text_of = raw,
                              body_json = Inr (JArr [])\<rparr>))
          model_id messages fresh) = Inl TypeError"
  by (simp add: query_openrouter_miss fresh_def always_def try_except_def try_body_def
      except_clauses_def bind_exn_def raise_for_status_def)

text \<open>
  C4, amended. For every response with a 4xx or 5xx status the function returns the
  string of line 65, which contains the decimal status code, the reason phrase, the
  request URL and the raw body; and a run whose request is answered that way raises
  nothing and appends that string as the assistant turn after the user turn.
\<close>

theorem chat_http_error_becomes_assistant_turn:
  assumes "400 \<le> status_code r" and "status_code r < 600"
  shows "(net (length (sent s)) (post_request API_KEY model_id messages) = Returned r \<longrightarrow>
            fst (query_openrouter_body API_KEY net model_id messages s)
              = Inr (JStr (api_error_message r)))
       \<and> sublist (str_nat (status_code r)) (api_error_message r)
       \<and> sublist (reason r) (api_error_message r)
       \<and> sublist ''https://openrouter.ai/api/v1/chat/completions'' (api_error_message r)
       \<and> sublist (text_of r) (api_error_message r)
       \<and> (p \<noteq> []
            \<and> cache s (model_id, history s @ [\<lparr>role = ''user'', content = JStr p\<rparr>]) = None
            \<and> net (length (sent s))
                 (post_request API_KEY model_id
                    (history s @ [\<lparr>role = ''user'', content = JStr p\<rparr>])) = Returned r \<longrightarrow>
            fst (chat API_KEY net model_id (Some p) s) = None
            \<and> history (snd (chat API_KEY net model_id (Some p) s)) =
                history s @ [\<lparr>role = ''user'', content = JStr p\<rparr>,
                             \<lparr>role = ''assistant'', content = JStr (api_error_message r)\<rparr>])"
proof -
  let ?u = "\<lparr>role = ''user'', content = JStr p\<rparr>"
  let ?s2 = "append_turn ?u (init_chat_history s)"
  have err: "try_except (Returned r) = Inr (JStr (api_error_message r))"
    using assms by (rule try_except_http_error)
  have s2: "cache ?s2 = cache s" "sent ?s2 = sent s"
    by (simp_all add: append_turn_def init_chat_history_def split: option.splits)
  have body: "fst (query_openrouter_body API_KEY net model_id messages s)
      = Inr (JStr (api_error_message r))"
    if "net (length (sent s)) (post_request API_KEY model_id messages) = Returned r"
    using that err by (simp add: query_openrouter_body_eq)
  have run: "fst (chat API_KEY net model_id (Some p) s) = None
      \<and> history (snd (chat API_KEY net model_id (Some p) s)) =
          history s @ [?u, \<lparr>role = ''assistant'', content = JStr (api_error_message r)\<rparr>]"
    if p: "p \<noteq> []" and miss: "cache s (model_id, history s @ [?u]) = None"
      and net: "net (length (sent s)) (post_request API_KEY model_id (history s @ [?u]))
                  = Returned r"
  proof -
    have "fst (query_openrouter API_KEY net model_id (history s @ [?u]) ?s2)
        = Inr (JStr (api_error_message r))"
      using miss net err s2 by (simp add: query_openrouter_miss)
    then show ?thesis
      using chat_submit_history[OF p, of API_KEY net model_id s] by simp
  qed
  show ?thesis
    using body run api_error_message_embeds[of r] by blast
qed

theorem chat_http_error_becomes_assistant_turn_witness:
  "fst (chat ''sk-1''
          (always (Returned \<lparr>status_code = 500, reason = ''Internal Server Error'',
                              text_of = ''upstream down'', body_json = Inl RequestsJSONDecodeError\<rparr>))
          ''deepseek/deepseek-r1'' (Some ''Hello'') fresh) = None
   \<and> history (snd (chat ''sk-1''
          (always (Returned \<lparr>status_code = 500, reason = ''Internal Server Error'',
                              text_of = ''upstream down'', body_json = Inl RequestsJSONDecodeError\<rparr>))
          ''deepseek/deepseek-r1'' (Some ''Hello'') fresh)) =
       [\<lparr>role = ''user'', content = JStr ''Hello''\<rparr>,
        \<lparr>role = ''assistant'',
          content = JStr (cross_mark @ '' API Error: 500 Internal Server Error for url: ''
            @ ''https://openrouter.ai/api/v1/chat/completions'' @ [CHR 0x0A]
            @ ''Details: upstream down'')\<rparr>]"
  (is "fst (chat _ (always (Returned ?r)) _ _ _) = _ \<and> _")
proof -
  have m: "api_error_message ?r = cross_mark @ '' API Error: 500 Internal Server Error for url: ''
            @ ''https://openrouter.ai/api/v1/chat/completions'' @ [CHR 0x0A]
            @ ''Details: upstream down''"
    by (simp add: api_error_message_def str_nat.simps digit_char_def url_def)
  have h: "history fresh = []" "sent fresh = []" "cache fresh = (\<lambda>k. None)"
    by (simp_all add: fresh_def history_def)
  show ?thesis
    using chat_http_error_becomes_assistant_turn [where r = "?r" and p = "''Hello''" and s = fresh
        and net = "always (Returned ?r)" and API_KEY = "''sk-1''"
        and model_id = "''deepseek/deepseek-r1''"]
    by (simp add: m h always_def)
qed

text \<open>
  C4 as stated fails: a status outside 2xx that is not 4xx or 5xx does not make
  \<^verbatim>\<open>raise_for_status\<close> raise. A 302 response that carries a completion is answered
  with its content, which holds neither the status code nor the URL.
\<close>

theorem query_openrouter_status_302_returns_content:
  "\<not> (200 \<le> (302::nat) \<and> (302::nat) < 300)
   \<and> fst (query_openrouter_body ''sk-1''
          (always (Returned \<lparr>status_code = 302, reason = ''Found'', text_of = ''(body)'',
             body_json = Inr (JObj [(''choices'',
               JArr [JObj [(''message'', JObj [(''content'', JStr ''Hi!'')])]])])\<rparr>))
          ''deepseek/deepseek-r1'' [\<lparr>role = ''user'', content = JStr ''Hello''\<rparr>] fresh)
       = Inr (JStr ''Hi!'')
   \<and> \<not> sublist ''302'' ''Hi!''"
  by (simp add: query_openrouter_body_eq always_def try_except_def try_body_def bind_exn_def
      raise_for_status_def sublist_Cons_right)

text \<open>
  C5, amended. When a call returns, the next call with the same pair returns the same
  value and changes nothing but the call log: no request is sent. A call never gets the
  value memoized for a shorter list: storing the value for a list leaves the entry of
  the list with one more turn as it was, and when that entry is empty the call with the
  longer list sends one new request and its result is computed from the answer to that
  request.
\<close>

theorem query_openrouter_memoized:
  "(fst (query_openrouter API_KEY net model_id turns s) = Inr v \<longrightarrow>
      query_openrouter API_KEY net model_id turns
          (snd (query_openrouter API_KEY net model_id turns s))
        = (Inr v, (snd (query_openrouter API_KEY net model_id turns s))
                    \<lparr>calls := calls (snd (query_openrouter API_KEY net model_id turns s))
                               @ [(model_id, turns)]\<rparr>))
   \<and> cache (snd (query_openrouter API_KEY net model_id turns s)) (model_id, turns @ [t])
       = cache s (model_id, turns @ [t])
   \<and> (cache s (model_id, turns @ [t]) = None \<longrightarrow>
        fst (query_openrouter API_KEY net model_id (turns @ [t])
               (snd (query_openrouter API_KEY net model_id turns s)))
          = try_except
              (net (length (sent (snd (query_openrouter API_KEY net model_id turns s))))
                 (post_request API_KEY model_id (turns @ [t])))
        \<and> sent (snd (query_openrouter API_KEY net model_id (turns @ [t])
               (snd (query_openrouter API_KEY net model_id turns s))))
          = sent (snd (query_openrouter API_KEY net model_id turns s))
              @ [post_request API_KEY model_id (turns @ [t])])"
proof -
  let ?s1 = "snd (query_openrouter API_KEY net model_id turns s)"
  have ne: "(model_id, turns @ [t]) \<noteq> (model_id, turns)" by simp
  have other: "cache ?s1 (model_id, turns @ [t]) = cache s (model_id, turns @ [t])"
    using ne by (rule query_openrouter_cache_other)
  have again: "query_openrouter API_KEY net model_id turns ?s1
      = (Inr v, ?s1\<lparr>calls := calls ?s1 @ [(model_id, turns)]\<rparr>)"
    if "fst (query_openrouter API_KEY net model_id turns s) = Inr v"
    using query_openrouter_returns_memoized[OF that] by (rule query_openrouter_hit)
  have fresh_call:
    "fst (query_openrouter API_KEY net model_id (turns @ [t]) ?s1)
          = try_except (net (length (sent ?s1)) (post_request API_KEY model_id (turns @ [t])))
     \<and> sent (snd (query_openrouter API_KEY net model_id (turns @ [t]) ?s1))
          = sent ?s1 @ [post_request API_KEY model_id (turns @ [t])]"
    if "cache s (model_id, turns @ [t]) = None"
  proof -
    from that other have "cache ?s1 (model_id, turns @ [t]) = None" by simp
    then show ?thesis
      by (simp add: query_openrouter_miss split: sum.splits)
  qed
  show ?thesis using again other fresh_call by blast
qed

theorem query_openrouter_memoized_witness:
  "query_openrouter ''sk-1''
      (\<lambda>n rq. Returned \<lparr>status_code = 200, reason = ''OK'', text_of = ''(body)'',
         body_json = Inr (JObj [(''choices'',
           JArr [JObj [(''message'', JObj [(''content'', JStr (str_nat n))])]])])\<rparr>)
      ''deepseek/deepseek-r1'' [\<lparr>role = ''user'', content = JStr ''Hello''\<rparr>]
      (snd (query_openrouter ''sk-1''
        (\<lambda>n rq. Returned \<lparr>status_code = 200, reason = ''OK'', text_of = ''(body)'',
           body_json = Inr (JObj [(''choices'',
             JArr [JObj [(''message'', JObj [(''content'', JStr (str_nat n))])]])])\<rparr>)
        ''deepseek/deepseek-r1'' [\<lparr>role = ''user'', content = JStr ''Hello''\<rparr>] fresh))
    = (Inr (JStr ''0''),
       \<lparr>chat_history = None,
        cache = (\<lambda>k. None)((''deepseek/deepseek-r1'',
                  [\<lparr>role = ''user'', content = JStr ''Hello''\<rparr>]) \<mapsto> JStr ''0''),
        sent = [post_request ''sk-1'' ''deepseek/deepseek-r1''
                  [\<lparr>role = ''user'', content = JStr ''Hello''\<rparr>]],
        calls = [(''deepseek/deepseek-r1'', [\<lparr>role = ''user'', content = JStr ''Hello''\<rparr>]),
                 (''deepseek/deepseek-r1'', [\<lparr>role = ''user'', content = JStr ''Hello''\<rparr>])]\<rparr>)
   \<and> fst (query_openrouter ''sk-1''
      (\<lambda>n rq. Returned \<lparr>status_code = 200, reason = ''OK'', text_of = ''(body)'',
         body_json = Inr (JObj [(''choices'',
           JArr [JObj [(''message'', JObj [(''content'', JStr (str_nat n))])]])])\<rparr>)
      ''deepseek/deepseek-r1''
      ([\<lparr>role = ''user'', content = JStr ''Hello''\<rparr>]
         @ [\<lparr>role = ''assistant'', content = JStr ''0''\<rparr>])
      (snd (query_openrouter ''sk-1''
        (\<lambda>n rq. Returned \<lparr>status_code = 200, reason = ''OK'', text_of = ''(body)'',
           body_json = Inr (JObj [(''choices'',
             JArr [JObj [(''message'', JObj [(''content'', JStr (str_nat n))])]])])\<rparr>)
        ''deepseek/deepseek-r1'' [\<lparr>role = ''user'', content = JStr ''Hello''\<rparr>] fresh)))
    = Inr (JStr ''1'')"
  (is "query_openrouter _ ?net _ ?ts ?s1 = _ \<and> _")
proof -
  have first: "query_openrouter ''sk-1'' ?net ''deepseek/deepseek-r1'' ?ts fresh
      = (Inr (JStr ''0''),
         \<lparr>chat_history = None,
          cache = (\<lambda>k. None)((''deepseek/deepseek-r1'', ?ts) \<mapsto> JStr ''0''),
          sent = [post_request ''sk-1'' ''deepseek/deepseek-r1'' ?ts],
          calls = [(''deepseek/deepseek-r1'', ?ts)]\<rparr>)"
    by (simp add: query_openrouter_miss fresh_def try_except_def try_body_def bind_exn_def
        raise_for_status_def str_nat.simps digit_char_def)
  have miss: "cache fresh (''deepseek/deepseek-r1'',
      ?ts @ [\<lparr>role = ''assistant'', content = JStr ''0''\<rparr>]) = None"
    by (simp add: fresh_def)
  have one: "try_except (?net (Suc 0) rq) = Inr (JStr ''1'')" for rq
    by (simp add: try_except_def try_body_def bind_exn_def raise_for_status_def
        str_nat.simps digit_char_def)
  show ?thesis
    using query_openrouter_memoized [where API_KEY = "''sk-1''" and net = ?net and model_id = "''deepseek/deepseek-r1''"
        and turns = ?ts and s = fresh and v = "JStr ''0''"
        and t = "\<lparr>role = ''assistant'', content = JStr ''0''\<rparr>"] miss
    by (simp add: first one)
qed

text \<open>
  C5 as stated fails in its second part: a call after a turn was appended is a cache hit
  when the longer list was itself the argument of an earlier call (the store is shared by
  all sessions of the process and keyed by content). Three calls, with the lists
  Hello-More, Hello, and Hello with More appended: two requests are sent, none by the
  third call.
\<close>

theorem query_openrouter_hit_after_append:
  "sent (snd (query_openrouter ''sk-1''
      (always (Returned \<lparr>status_code = 200, reason = ''OK'', text_of = ''(body)'',
         body_json = Inr (JObj [(''choices'',
           JArr [JObj [(''message'', JObj [(''content'', JStr ''Hi!'')])]])])\<rparr>))
      ''deepseek/deepseek-r1''
      ([\<lparr>role = ''user'', content = JStr ''Hello''\<rparr>]
         @ [\<lparr>role = ''user'', content = JStr ''More''\<rparr>])
      (snd (query_openrouter ''sk-1''
        (always (Returned \<lparr>status_code = 200, reason = ''OK'', text_of = ''(body)'',
           body_json = Inr (JObj [(''choices'',
             JArr [JObj [(''message'', JObj [(''content'', JStr ''Hi!'')])]])])\<rparr>))
        ''deepseek/deepseek-r1''
        [\<lparr>role = ''user'', content = JStr ''Hello''\<rparr>]
        (snd (query_openrouter ''sk-1''
          (always (Returned \<lparr>status_code = 200, reason = ''OK'', text_of = ''(body)'',
             body_json = Inr (JObj [(''choices'',
               JArr [JObj [(''message'', JObj [(''content'', JStr ''Hi!'')])]])])\<rparr>))
          ''deepseek/deepseek-r1''
          [\<lparr>role = ''user'', content = JStr ''Hello''\<rparr>,
           \<lparr>role = ''user'', content = JStr ''More''\<rparr>]
          fresh))))))
   = [post_request ''sk-1'' ''deepseek/deepseek-r1''
        [\<lparr>role = ''user'', content = JStr ''Hello''\<rparr>,
         \<lparr>role = ''user'', content = JStr ''More''\<rparr>],
      post_request ''sk-1'' ''deepseek/deepseek-r1''
        [\<lparr>role = ''user'', content = JStr ''Hello''\<rparr>]]"
  by (simp add: query_openrouter_def query_openrouter_body_eq Let_def fresh_def always_def
      try_except_def try_body_def bind_exn_def raise_for_status_def)

text \<open>
  C6. For a response with a 2xx status whose decoded body is an object with a
  \<^verbatim>\<open>choices\<close> list, the first element of which is an object whose \<^verbatim>\<open>message\<close> is an
  object with the string \<^verbatim>\<open>content\<close>, the function returns that string, unmodified;
  so does the decorated function when the argument pair is not memoized.
\<close>

theorem query_openrouter_returns_first_choice_content:
  assumes "200 \<le> status_code r" and "status_code r < 300"
    and "body_json r = Inr (JObj kvs)"
    and "map_of kvs ''choices'' = Some (JArr (JObj c # others))"
    and "map_of c ''message'' = Some (JObj m)"
    and "map_of m ''content'' = Some (JStr answer)"
    and "net (length (sent s)) (post_request API_KEY model_id messages) = Returned r"
  shows "fst (query_openrouter_body API_KEY net model_id messages s) = Inr (JStr answer)
       \<and> (cache s (model_id, messages) = None \<longrightarrow>
            fst (query_openrouter API_KEY net model_id messages s) = Inr (JStr answer))"
proof -
  have ok: "try_except (Returned r) = Inr (JStr answer)"
    using assms(1-6) by (intro try_except_good) auto
  show ?thesis
    by (simp add: query_openrouter_body_eq query_openrouter_miss assms(7) ok)
qed

theorem query_openrouter_returns_first_choice_content_witness:
  "fst (query_openrouter_body ''sk-1''
          (always (Returned \<lparr>status_code = 200, reason = ''OK'', text_of = ''(body)'',
             body_json = Inr (JObj [(''id'', JStr ''gen-1''),
               (''choices'', JArr [JObj [(''index'', JInt 0),
                  (''message'', JObj [(''role'', JStr ''assistant''),
                                      (''content'', JStr ''Hi!'')])]])])\<rparr>))
          ''meta-llama/llama-3-8b-instruct''
          [\<lparr>role = ''user'', content = JStr ''Hello''\<rparr>] fresh) = Inr (JStr ''Hi!'')
   \<and> fst (query_openrouter ''sk-1''
          (always (Returned \<lparr>status_code = 200, reason = ''OK'', text_of = ''(body)'',
             body_json = Inr (JObj [(''id'', JStr ''gen-1''),
               (''choices'', JArr [JObj [(''index'', JInt 0),
                  (''message'', JObj [(''role'', JStr ''assistant''),
                                      (''content'', JStr ''Hi!'')])]])])\<rparr>))
          ''meta-llama/llama-3-8b-instruct''
          [\<lparr>role = ''user'', content = JStr ''Hello''\<rparr>] fresh) = Inr (JStr ''Hi!'')"
  (is "fst (query_openrouter_body _ (always (Returned ?r)) _ _ _) = _ \<and> _")
proof -
  have "cache fresh (''meta-llama/llama-3-8b-instruct'',
          [\<lparr>role = ''user'', content = JStr ''Hello''\<rparr>]) = None"
    by (simp add: fresh_def)
  then show ?thesis
    using query_openrouter_returns_first_choice_content
      [where r = "?r" and s = fresh and net = "always (Returned ?r)"
         and kvs = "[(''id'', JStr ''gen-1''),
               (''choices'', JArr [JObj [(''index'', JInt 0),
                  (''message'', JObj [(''role'', JStr ''assistant''),
                                      (''content'', JStr ''Hi!'')])]])]"
         and c = "[(''index'', JInt 0),
                  (''message'', JObj [(''role'', JStr ''assistant''),
                                      (''content'', JStr ''Hi!'')])]"
         and others = "[]"
         and m = "[(''role'', JStr ''assistant''), (''content'', JStr ''Hi!'')]"
         and answer = "''Hi!''" and API_KEY = "''sk-1''"
         and model_id = "''meta-llama/llama-3-8b-instruct''"
         and messages = "[\<lparr>role = ''user'', content = JStr ''Hello''\<rparr>]"]
    by (simp add: always_def)
qed

text \<open>
  C7, amended. Every call of \<^verbatim>\<open>query_openrouter\<close> whose argument pair is not memoized
  runs the function, which hands exactly one request to \<^verbatim>\<open>requests.post\<close>: a POST to the
  fixed URL, with the three headers, and with the JSON body made of the model id, the
  messages as role and content pairs in order, and the temperature 0.7. A call whose
  pair is memoized sends nothing. Every execution of the function under the decorator
  (lines 49 to 61) sends that one request.
\<close>

theorem query_openrouter_posts_once:
  "(cache s (model_id, messages) = None \<longrightarrow>
      sent (snd (query_openrouter API_KEY net model_id messages s)) =
        sent s @
          [\<lparr>req_method = ''POST'',
            req_url = ''https://openrouter.ai/api/v1/chat/completions'',
            req_headers =
              [(''Authorization'', ''Bearer '' @ API_KEY),
               (''Content-Type'', ''application/json''),
               (''X-Title'', ''Multi-Model Chatbot'')],
            req_json =
              JObj [(''model'', JStr model_id),
                    (''messages'',
                     JArr (map (\<lambda>t. JObj [(''role'', JStr (role t)), (''content'', content t)])
                            messages)),
                    (''temperature'', JFloat 7 (- 1))]\<rparr>])
   \<and> (cache s (model_id, messages) \<noteq> None \<longrightarrow>
      sent (snd (query_openrouter API_KEY net model_id messages s)) = sent s)
   \<and> sent (snd (query_openrouter_body API_KEY net model_id messages s)) =
        sent s @
          [\<lparr>req_method = ''POST'',
            req_url = ''https://openrouter.ai/api/v1/chat/completions'',
            req_headers =
              [(''Authorization'', ''Bearer '' @ API_KEY),
               (''Content-Type'', ''application/json''),
               (''X-Title'', ''Multi-Model Chatbot'')],
            req_json =
              JObj [(''model'', JStr model_id),
                    (''messages'',
                     JArr (map (\<lambda>t. JObj [(''role'', JStr (role t)), (''content'', content t)])
                            messages)),
                    (''temperature'', JFloat 7 (- 1))]\<rparr>]"
  by (simp add: query_openrouter_sent query_openrouter_body_eq post_request_def url_def
      headers_def data_def message_json_def)

theorem query_openrouter_posts_once_witness:
  "sent (snd (query_openrouter ''sk-1'' (always (PostRaised Timeout))
        ''google/gemma-3-27b-it'' [\<lparr>role = ''user'', content = JStr ''Hello''\<rparr>] fresh)) =
     [\<lparr>req_method = ''POST'',
       req_url = ''https://openrouter.ai/api/v1/chat/completions'',
       req_headers =
         [(''Authorization'', ''Bearer sk-1''),
          (''Content-Type'', ''application/json''),
          (''X-Title'', ''Multi-Model Chatbot'')],
       req_json =
         JObj [(''model'', JStr ''google/gemma-3-27b-it''),
               (''messages'',
                JArr [JObj [(''role'', JStr ''user''), (''content'', JStr ''Hello'')]]),
               (''temperature'', JFloat 7 (- 1))]\<rparr>]
   \<and> sent (snd (query_openrouter ''sk-1'' (always (PostRaised Timeout))
        ''google/gemma-3-27b-it'' [\<lparr>role = ''user'', content = JStr ''Hello''\<rparr>]
        (fresh\<lparr>cache := (\<lambda>k. None)((''google/gemma-3-27b-it'',
             [\<lparr>role = ''user'', content = JStr ''Hello''\<rparr>]) \<mapsto> JStr ''Hi!'')\<rparr>))) = []"
  using query_openrouter_posts_once
      [of fresh "''google/gemma-3-27b-it''" "[\<lparr>role = ''user'', content = JStr ''Hello''\<rparr>]"
          "''sk-1''" "always (PostRaised Timeout)"]
    query_openrouter_posts_once
      [of "fresh\<lparr>cache := (\<lambda>k. None)((''google/gemma-3-27b-it'',
             [\<lparr>role = ''user'', content = JStr ''Hello''\<rparr>]) \<mapsto> JStr ''Hi!'')\<rparr>"
          "''google/gemma-3-27b-it''" "[\<lparr>role = ''user'', content = JStr ''Hello''\<rparr>]"
          "''sk-1''" "always (PostRaised Timeout)"]
  by (simp add: fresh_def)

text \<open>
  C7 as stated fails: not every call of \<^verbatim>\<open>query_openrouter\<close> posts. Two calls with the
  same pair, the first answered with a completion: the second is served from the memo,
  and one request is sent in all.
\<close>

theorem query_openrouter_second_call_posts_nothing:
  "sent (snd (query_openrouter ''sk-1''
      (always (Returned \<lparr>status_code = 200, reason = ''OK'', text_of = ''(body)'',
         body_json = Inr (JObj [(''choices'',
           JArr [JObj [(''message'', JObj [(''content'', JStr ''Hi!'')])]])])\<rparr>))
      ''google/gemma-3-27b-it'' [\<lparr>role = ''user'', content = JStr ''Hello''\<rparr>]
      (snd (query_openrouter ''sk-1''
        (always (Returned \<lparr>status_code = 200, reason = ''OK'', text_of = ''(body)'',
           body_json = Inr (JObj [(''choices'',
             JArr [JObj [(''message'', JObj [(''content'', JStr ''Hi!'')])]])])\<rparr>))
        ''google/gemma-3-27b-it'' [\<lparr>role = ''user'', content = JStr ''Hello''\<rparr>] fresh))))
   = [post_request ''sk-1'' ''google/gemma-3-27b-it''
        [\<lparr>role = ''user'', content = JStr ''Hello''\<rparr>]]
   \<and> calls (snd (query_openrouter ''sk-1''
      (always (Returned \<lparr>status_code = 200, reason = ''OK'', text_of = ''(body)'',
         body_json = Inr (JObj [(''choices'',
           JArr [JObj [(''message'', JObj [(''content'', JStr ''Hi!'')])]])])\<rparr>))
      ''google/gemma-3-27b-it'' [\<lparr>role = ''user'', content = JStr ''Hello''\<rparr>]
      (snd (query_openrouter ''sk-1''
        (always (Returned \<lparr>status_code = 200, reason = ''OK'', text_of = ''(body)'',
           body_json = Inr (JObj [(''choices'',
             JArr [JObj [(''message'', JObj [(''content'', JStr ''Hi!'')])]])])\<rparr>))
        ''google/gemma-3-27b-it'' [\<lparr>role = ''user'', content = JStr ''Hello''\<rparr>] fresh))))
   = [(''google/gemma-3-27b-it'', [\<lparr>role = ''user'', content = JStr ''Hello''\<rparr>]),
      (''google/gemma-3-27b-it'', [\<lparr>role = ''user'', content = JStr ''Hello''\<rparr>])]"
  by (simp add: query_openrouter_def query_openrouter_body_eq Let_def fresh_def always_def
      try_except_def try_body_def bind_exn_def raise_for_status_def)



text \<open>
  C9. When the input control yields \<open>None\<close> or the empty string, the run raises
  nothing, the turns of the history are the ones it had, no request is sent, the
  Completion Client is not called and nothing is memoized.
\<close>

theorem chat_without_prompt_changes_nothing:
  assumes "user_prompt = None \<or> user_prompt = Some []"
  shows "fst (chat API_KEY net selected_model_id user_prompt s) = None
       \<and> history (snd (chat API_KEY net selected_model_id user_prompt s)) = history s
       \<and> sent (snd (chat API_KEY net selected_model_id user_prompt s)) = sent s
       \<and> calls (snd (chat API_KEY net selected_model_id user_prompt s)) = calls s
       \<and> cache (snd (chat API_KEY net selected_model_id user_prompt s)) = cache s"
  using assms
  by (auto simp: chat_def Let_def init_chat_history_def history_def split: option.splits)

theorem chat_without_prompt_changes_nothing_witness:
  "history (snd (chat ''sk-1'' (always (PostRaised Timeout)) ''deepseek/deepseek-r1'' (Some [])
      (fresh\<lparr>chat_history := Some [\<lparr>role = ''user'', content = JStr ''Hello''\<rparr>,
                                    \<lparr>role = ''assistant'', content = JStr ''Hi!''\<rparr>]\<rparr>)))
     = [\<lparr>role = ''user'', content = JStr ''Hello''\<rparr>,
        \<lparr>role = ''assistant'', content = JStr ''Hi!''\<rparr>]
   \<and> sent (snd (chat ''sk-1'' (always (PostRaised Timeout)) ''deepseek/deepseek-r1'' (Some [])
      (fresh\<lparr>chat_history := Some [\<lparr>role = ''user'', content = JStr ''Hello''\<rparr>,
                                    \<lparr>role = ''assistant'', content = JStr ''Hi!''\<rparr>]\<rparr>))) = []
   \<and> sent (snd (chat ''sk-1'' (always (PostRaised Timeout)) ''deepseek/deepseek-r1'' None fresh))
     = []
   \<and> history (snd (chat ''sk-1'' (always (PostRaised Timeout)) ''deepseek/deepseek-r1'' None fresh))
     = []"
  using chat_without_prompt_changes_nothing
      [of "Some []" "''sk-1''" "always (PostRaised Timeout)" "''deepseek/deepseek-r1''"
          "fresh\<lparr>chat_history := Some [\<lparr>role = ''user'', content = JStr ''Hello''\<rparr>,
                                       \<lparr>role = ''assistant'', content = JStr ''Hi!''\<rparr>]\<rparr>"]
    chat_without_prompt_changes_nothing
      [of None "''sk-1''" "always (PostRaised Timeout)" "''deepseek/deepseek-r1''" fresh]
  by (simp add: history_def fresh_def)

text \<open>
  C10. When the secrets lookup succeeds its value is the key, whatever the environment
  and the \<^verbatim>\<open>.env\<close> file hold; when it raises, the key is the environment variable, and
  the entry of the \<^verbatim>\<open>.env\<close> file where the variable is not set.
\<close>

theorem load_API_KEY_precedence:
  "(secrets_lookup c = Inr v \<longrightarrow>
      load_API_KEY c = Some v
      \<and> load_API_KEY (c\<lparr>os_environ := env, dotenv_file := file\<rparr>) = Some v)
   \<and> (secrets_lookup c = Inl e \<longrightarrow>
      load_API_KEY c =
        (case os_environ c ''OPENROUTER_API_KEY'' of
           Some w \<Rightarrow> Some w
         | None \<Rightarrow> dotenv_file c ''OPENROUTER_API_KEY''))"
  by (auto simp: load_API_KEY_def load_dotenv_def map_add_def split: option.splits)

theorem load_API_KEY_precedence_witness:
  "load_API_KEY \<lparr>secrets_lookup = Inr ''sk-secret'',
                 os_environ = [''OPENROUTER_API_KEY'' \<mapsto> ''sk-env''],
                 dotenv_file = Map.empty\<rparr> = Some ''sk-secret''
   \<and> load_API_KEY \<lparr>secrets_lookup = Inl KeyError,
                 os_environ = [''OPENROUTER_API_KEY'' \<mapsto> ''sk-env''],
                 dotenv_file = [''OPENROUTER_API_KEY'' \<mapsto> ''sk-file'']\<rparr> = Some ''sk-env''
   \<and> load_API_KEY \<lparr>secrets_lookup = Inl KeyError,
                 os_environ = Map.empty,
                 dotenv_file = [''OPENROUTER_API_KEY'' \<mapsto> ''sk-file'']\<rparr> = Some ''sk-file''"
  using load_API_KEY_precedence
      [of "\<lparr>secrets_lookup = Inr ''sk-secret'',
            os_environ = [''OPENROUTER_API_KEY'' \<mapsto> ''sk-env''],
            dotenv_file = Map.empty\<rparr>" "''sk-secret''" Map.empty Map.empty KeyError]
    load_API_KEY_precedence
      [of "\<lparr>secrets_lookup = Inl KeyError,
            os_environ = [''OPENROUTER_API_KEY'' \<mapsto> ''sk-env''],
            dotenv_file = [''OPENROUTER_API_KEY'' \<mapsto> ''sk-file'']\<rparr>" "''x''" Map.empty Map.empty
          KeyError]
    load_API_KEY_precedence
      [of "\<lparr>secrets_lookup = Inl KeyError,
            os_environ = Map.empty,
            dotenv_file = [''OPENROUTER_API_KEY'' \<mapsto> ''sk-file'']\<rparr>" "''x''" Map.empty Map.empty
          KeyError]
  by simp

end
